theory Spec2Isabelle
  imports Complex_Main
begin

section \<open>Data model of \<open>app.py\<close>\<close>

text \<open>
  Timestamps are the values of \<open>time.time()\<close>. They are modelled as real numbers: the
  code only orders them and shifts them by constants, and rounding and overflow of the
  floating-point sums are not represented. Every function that reads the clock takes the
  reading as an argument, one argument per call of \<open>time.time()\<close> in the source.
\<close>

type_synonym timestamp = real
type_synonym bytes = string

text \<open>The module constants read from the environment at start-up (lines 25-28).\<close>

record config =
  BACKEND_URL :: string
  REQUESTS_PER_HOUR :: int
  DDOS_REQUESTS_PER_MINUTE :: int
  BLOCK_DURATION_MINUTES :: int

text \<open>
  The three module-level containers (lines 31-33): \<open>ip_requests\<close> is a
  \<open>defaultdict(deque)\<close>, \<open>blocked_ips\<close> a dict, \<open>stats\<close> a \<open>defaultdict(int)\<close>.
  A deque is a list whose head is the left end.
\<close>

record state =
  ip_requests :: "string \<rightharpoonup> timestamp list"
  blocked_ips :: "string \<rightharpoonup> timestamp"
  stats :: "string \<rightharpoonup> int"

datatype py_error = KeyError

text \<open>\<open>d[k]\<close> on a plain dict raises \<open>KeyError\<close> when the key is missing.\<close>

definition dict_get :: "('k \<rightharpoonup> 'v) \<Rightarrow> 'k \<Rightarrow> py_error + 'v" where
  "dict_get d k = (case d k of None \<Rightarrow> Inl KeyError | Some v \<Rightarrow> Inr v)"

text \<open>\<open>d[k]\<close> on a \<open>defaultdict\<close> yields the default for a missing key.\<close>

definition defaultdict_get :: "'v \<Rightarrow> ('k \<rightharpoonup> 'v) \<Rightarrow> 'k \<Rightarrow> 'v" where
  "defaultdict_get dflt d k = (case d k of None \<Rightarrow> dflt | Some v \<Rightarrow> v)"

section \<open>Sweep, block lookup and the rate check\<close>

text \<open>
  The inner loop of \<open>cleanup_old_data\<close> (lines 56-57):
  \<open>while dq and dq[0] < one_hour_ago: dq.popleft()\<close>.
\<close>

fun popleft_while :: "timestamp \<Rightarrow> timestamp list \<Rightarrow> timestamp list" where
  "popleft_while one_hour_ago [] = []"
| "popleft_while one_hour_ago (t # dq) =
     (if t < one_hour_ago then popleft_while one_hour_ago dq else t # dq)"

text \<open>
  \<open>cleanup_old_data\<close> (lines 48-65). Each iteration of the two \<open>for\<close> loops touches only
  the entry of its own key, so the loops are written as what they do to the entry of an
  arbitrary key: a key that is absent stays absent, a present one is trimmed and deleted
  when it became empty (lines 58-59), a block is deleted when it lies strictly before
  \<open>current_time\<close> (lines 63-64).
\<close>

definition cleanup_old_data :: "state \<Rightarrow> timestamp \<Rightarrow> state" where
  "cleanup_old_data st current_time =
     (let one_hour_ago = current_time - 3600 in
      st\<lparr>ip_requests :=
           (\<lambda>ip. case ip_requests st ip of
                   None \<Rightarrow> None
                 | Some dq \<Rightarrow>
                     (let dq' = popleft_while one_hour_ago dq
                      in if dq' = [] then None else Some dq')),
         blocked_ips :=
           (\<lambda>ip. case blocked_ips st ip of
                   None \<Rightarrow> None
                 | Some unblock_time \<Rightarrow>
                     if unblock_time < current_time then None else Some unblock_time)\<rparr>)"

text \<open>\<open>is_ip_blocked\<close> (lines 67-69); the \<open>and\<close> short-circuits on a missing key.\<close>

definition is_ip_blocked :: "state \<Rightarrow> string \<Rightarrow> timestamp \<Rightarrow> bool" where
  "is_ip_blocked st ip now =
     (case blocked_ips st ip of None \<Rightarrow> False | Some unblock_time \<Rightarrow> unblock_time > now)"

text \<open>
  \<open>check_rate_limit\<close> (lines 71-96). The result is the new state and the triple
  \<open>(allowed, hour_count, reason)\<close>.
\<close>

definition check_rate_limit ::
  "config \<Rightarrow> state \<Rightarrow> string \<Rightarrow> timestamp \<Rightarrow> state \<times> (bool \<times> int \<times> string)" where
  "check_rate_limit cfg st ip current_time =
     (let dq = defaultdict_get [] (ip_requests st) ip @ [current_time];
          st1 = st\<lparr>ip_requests := (ip_requests st)(ip \<mapsto> dq)\<rparr>;
          hour_count = int (length dq);
          minute_requests = int (length (filter (\<lambda>t. t > current_time - 60) dq))
      in if minute_requests \<ge> DDOS_REQUESTS_PER_MINUTE cfg then
           (let block_until = current_time + real_of_int (BLOCK_DURATION_MINUTES cfg * 60)
            in (st1\<lparr>blocked_ips := (blocked_ips st1)(ip \<mapsto> block_until)\<rparr>,
                (False, hour_count, ''DDoS detected'')))
         else if hour_count > REQUESTS_PER_HOUR cfg then
           (st1, (False, hour_count, ''Rate limit exceeded''))
         else (st1, (True, hour_count, ''OK'')))"

text \<open>
  \<open>log_request\<close> (lines 98-107): the two counters; the line handed to the logger is not
  part of the model.
\<close>

definition bump :: "(string \<rightharpoonup> int) \<Rightarrow> string \<Rightarrow> (string \<rightharpoonup> int)" where
  "bump s k = s(k \<mapsto> defaultdict_get 0 s k + 1)"

definition log_request :: "state \<Rightarrow> string \<Rightarrow> state" where
  "log_request st status = st\<lparr>stats := bump (bump (stats st) status) ''total''\<rparr>"

section \<open>Responses\<close>

text \<open>
  The JSON objects built by \<open>jsonify\<close>, one constructor per shape, with the values that
  vary as arguments:
  \<^item> \<open>Blocked_body remaining_minutes unblock_time\<close> (lines 207-212; the time is kept as
    the timestamp that \<open>strftime\<close> formats);
  \<^item> \<open>DDoS_body reason block_duration_minutes\<close> (lines 219-223);
  \<^item> \<open>Rate_limited_body limit current_count\<close> (lines 226-231);
  \<^item> \<open>Timeout_body\<close>, \<open>Unavailable_body\<close>, \<open>Proxy_error_body details\<close> (lines 285-293);
  \<^item> \<open>Unblock_body ip success\<close> (lines 188 and 190);
  \<^item> \<open>Backend_body content\<close>, the bytes relayed from the backend (line 278).
\<close>

datatype body =
    Blocked_body int timestamp
  | DDoS_body string int
  | Rate_limited_body int int
  | Timeout_body
  | Unavailable_body
  | Proxy_error_body string
  | Unblock_body string bool
  | Backend_body bytes

record response =
  status_code :: int
  resp_headers :: "string \<rightharpoonup> string"
  resp_body :: body

definition jsonify :: "body \<Rightarrow> int \<Rightarrow> response" where
  "jsonify b code = \<lparr>status_code = code, resp_headers = Map.empty, resp_body = b\<rparr>"


section \<open>The proxy route\<close>

text \<open>
  What \<open>proxy_request\<close> reads from the Flask request object. \<open>client_ip\<close> is the value
  of \<open>get_real_ip()\<close>, \<open>req_method\<close> the HTTP verb in \<open>request.method\<close>,
  \<open>path\<close> the route variable, \<open>req_headers\<close> the items of
  \<open>request.headers\<close>, \<open>args\<close> the query parameters, \<open>form\<close> the result of
  \<open>request.form.to_dict()\<close> and \<open>files\<close> the uploads by field name, each with file name,
  stream and content type. \<open>get_json\<close> is the outcome of \<open>request.get_json()\<close>, which
  raises on a body that does not parse.
\<close>

datatype jsonv =
    JNull | JBool bool | JInt int | JStr string
  | JList "jsonv list" | JDict "(string \<times> jsonv) list"

text \<open>
  An exception as the \<open>except\<close> clauses of lines 283-291 see it: whether it is an instance
  of \<open>requests.exceptions.Timeout\<close>, whether it is an instance of
  \<open>requests.exceptions.ConnectionError\<close>, and \<open>str(e)\<close>. All of them are instances of
  \<open>Exception\<close>.
\<close>

record exception =
  is_Timeout :: bool
  is_ConnectionError :: bool
  str :: string

record request =
  client_ip :: string
  req_method :: string
  path :: string
  req_headers :: "string \<rightharpoonup> string"
  args :: "(string \<times> string) list"
  content_type :: "string option"
  is_json :: bool
  get_json :: "exception + jsonv"
  get_data :: bytes
  form :: "string \<rightharpoonup> string"
  files :: "string \<rightharpoonup> (string \<times> bytes \<times> string)"

text \<open>
  The arguments of the call into the \<open>requests\<close> library; a keyword argument that is not
  passed is \<open>None\<close>.
\<close>

datatype payload = Raw bytes | Form_fields "string \<rightharpoonup> string"

record outbound =
  ob_method :: string
  ob_url :: string
  ob_params :: "(string \<times> string) list option"
  ob_headers :: "string \<rightharpoonup> string"
  ob_data :: "payload option"
  ob_json :: "jsonv option"
  ob_files :: "(string \<rightharpoonup> (string \<times> bytes \<times> string)) option"
  ob_timeout :: int

text \<open>What the handler reads from the backend's answer.\<close>

record backend_response =
  br_content :: bytes
  br_status_code :: int
  br_headers :: "string \<rightharpoonup> string"

type_synonym backend = "outbound \<Rightarrow> exception + backend_response"

text \<open>
  The four readings of \<open>time.time()\<close> during one call of \<open>proxy_request\<close>: in
  \<open>cleanup_old_data\<close> (line 50), in \<open>is_ip_blocked\<close> (line 69), for the remaining minutes
  (line 205) and in \<open>check_rate_limit\<close> (line 73).
\<close>

record clock =
  t_cleanup :: timestamp
  t_is_blocked :: timestamp
  t_remaining :: timestamp
  t_check :: timestamp

text \<open>\<open>str.lower()\<close> on header names: the letters \<open>A\<close> to \<open>Z\<close> are mapped, the rest is kept.\<close>

definition lower_char :: "char \<Rightarrow> char" where
  "lower_char c =
     (case map_of (zip ''ABCDEFGHIJKLMNOPQRSTUVWXYZ'' ''abcdefghijklmnopqrstuvwxyz'') c of
        None \<Rightarrow> c | Some d \<Rightarrow> d)"

definition lower :: "string \<Rightarrow> string" where
  "lower s = map lower_char s"

text \<open>The operator \<open>in\<close> on two strings: \<open>needle in hay\<close>.\<close>

fun str_contains :: "string \<Rightarrow> string \<Rightarrow> bool" where
  "str_contains needle [] = (needle = [])"
| "str_contains needle (c # cs) =
     (take (length needle) (c # cs) = needle \<or> str_contains needle cs)"

text \<open>\<open>s.rstrip('/')\<close>.\<close>

definition rstrip_slash :: "string \<Rightarrow> string" where
  "rstrip_slash s = rev (dropWhile (\<lambda>c. c = CHR ''/'') (rev s))"

text \<open>\<open>int(x)\<close> on a float rounds towards zero.\<close>

definition py_int :: "real \<Rightarrow> int" where
  "py_int x = (if x \<ge> 0 then \<lfloor>x\<rfloor> else \<lceil>x\<rceil>)"

text \<open>
  Lines 196-231 of \<open>proxy_request\<close>: sweep, block lookup, rate check. The result is
  \<open>Deny\<close> with the 429 response that the handler returns, or \<open>Allow request_count\<close> when
  the handler goes on to the backend. The two subscripts \<open>blocked_ips[ip]\<close> of lines 205
  and 211 raise \<open>KeyError\<close> on a missing key.
\<close>

datatype admission = Deny response | Allow int

definition admit :: "config \<Rightarrow> state \<Rightarrow> string \<Rightarrow> clock \<Rightarrow> py_error + (state \<times> admission)" where
  "admit cfg st ip clk =
     (let st1 = cleanup_old_data st (t_cleanup clk) in
      if is_ip_blocked st1 ip (t_is_blocked clk) then
        (case dict_get (blocked_ips st1) ip of
           Inl err \<Rightarrow> Inl err
         | Inr unblock_time \<Rightarrow>
             (let remaining_time = py_int ((unblock_time - t_remaining clk) / 60)
              in Inr (log_request st1 ''BLOCKED'',
                      Deny (jsonify (Blocked_body remaining_time unblock_time) 429))))
      else
        (case check_rate_limit cfg st1 ip (t_check clk) of
           (st2, allowed, request_count, reason) \<Rightarrow>
             if \<not> allowed then
               (if str_contains ''DDoS'' reason then
                  Inr (log_request st2 ''DDOS_BLOCKED'',
                       Deny (jsonify (DDoS_body reason (BLOCK_DURATION_MINUTES cfg)) 429))
                else
                  Inr (log_request st2 ''RATE_LIMITED'',
                       Deny (jsonify (Rate_limited_body (REQUESTS_PER_HOUR cfg) request_count) 429)))
             else Inr (st2, Allow request_count)))"

text \<open>
  Lines 235-266: the header copy and the call chosen by request method and content type. Only
  \<open>request.get_json()\<close> can raise before the call is made.
\<close>

definition outbound_call :: "config \<Rightarrow> request \<Rightarrow> exception + outbound" where
  "outbound_call cfg req =
     (let backend_url = rstrip_slash (BACKEND_URL cfg) @ ''/'' @ path req;
          headers = (\<lambda>k. if lower k \<in> set [''host'', ''content-length'']
                          then None else req_headers req k);
          call = \<lparr>ob_method = req_method req, ob_url = backend_url, ob_params = None,
                  ob_headers = headers, ob_data = None, ob_json = None, ob_files = None,
                  ob_timeout = 30\<rparr>
      in if req_method req = ''GET'' then
           Inr (call\<lparr>ob_params := Some (args req)\<rparr>)
         else if req_method req = ''POST'' then
           (if (case content_type req of
                  None \<Rightarrow> False
                | Some ct \<Rightarrow> ct \<noteq> [] \<and> str_contains ''multipart/form-data'' ct) then
              Inr (call\<lparr>ob_data := Some (Form_fields (form req)),
                        ob_files := Some (files req),
                        ob_headers := (\<lambda>k. if lower k \<noteq> ''content-type''
                                             then headers k else None)\<rparr>)
            else if is_json req then
              (case get_json req of
                 Inl e \<Rightarrow> Inl e
               | Inr j \<Rightarrow> Inr (call\<lparr>ob_json := Some j\<rparr>))
            else Inr (call\<lparr>ob_data := Some (Raw (get_data req))\<rparr>))
         else
           Inr (call\<lparr>ob_data := Some (Raw (get_data req)),
                     ob_params := Some (args req)\<rparr>))"

text \<open>
  Lines 234-293: the \<open>try\<close> block and its three handlers, tried in the order of the
  source. The backend is a function from the call to an exception or an answer.
\<close>

definition excluded_headers :: "string list" where
  "excluded_headers =
     [''content-encoding'', ''content-length'', ''transfer-encoding'', ''connection'']"

definition forward :: "config \<Rightarrow> backend \<Rightarrow> state \<Rightarrow> request \<Rightarrow> state \<times> response" where
  "forward cfg backend st req =
     (case (case outbound_call cfg req of Inl e \<Rightarrow> Inl e | Inr call \<Rightarrow> backend call) of
        Inr response \<Rightarrow>
          (log_request st ''SUCCESS'',
           \<lparr>status_code = br_status_code response,
            resp_headers = (\<lambda>k. if lower k \<in> set excluded_headers
                                 then None else br_headers response k),
            resp_body = Backend_body (br_content response)\<rparr>)
      | Inl e \<Rightarrow>
          if is_Timeout e then (log_request st ''TIMEOUT'', jsonify Timeout_body 504)
          else if is_ConnectionError e then
            (log_request st ''CONNECTION_ERROR'', jsonify Unavailable_body 502)
          else (log_request st ''ERROR'', jsonify (Proxy_error_body (str e)) 500))"

text \<open>\<open>proxy_request\<close> (lines 193-293).\<close>

definition proxy_request ::
  "config \<Rightarrow> backend \<Rightarrow> state \<Rightarrow> request \<Rightarrow> clock \<Rightarrow> py_error + (state \<times> response)" where
  "proxy_request cfg backend st req clk =
     (case admit cfg st (client_ip req) clk of
        Inl err \<Rightarrow> Inl err
      | Inr (st', Deny r) \<Rightarrow> Inr (st', r)
      | Inr (st', Allow request_count) \<Rightarrow> Inr (forward cfg backend st' req))"

text \<open>
  Requests handled one after the other, each with its own clock readings; the decisions
  of \<open>admit\<close> are collected in order.
\<close>

fun serve_all ::
  "config \<Rightarrow> backend \<Rightarrow> state \<Rightarrow> (request \<times> clock) list \<Rightarrow> py_error + (state \<times> admission list)"
  where
  "serve_all cfg backend st [] = Inr (st, [])"
| "serve_all cfg backend st ((req, clk) # rest) =
     (case admit cfg st (client_ip req) clk of
        Inl err \<Rightarrow> Inl err
      | Inr (st1, d) \<Rightarrow>
          (let st2 = (case d of Deny r \<Rightarrow> st1 | Allow n \<Rightarrow> fst (forward cfg backend st1 req))
           in case serve_all cfg backend st2 rest of
                Inl err \<Rightarrow> Inl err
              | Inr (st', ds) \<Rightarrow> Inr (st', d # ds)))"

section \<open>Two handlers on two threads\<close>

text \<open>
  The server is started with \<open>threaded=True\<close> (line 325) and the handler takes no lock,
  so the lines of two calls of \<open>proxy_request\<close> can alternate. A handler is followed
  here from the sweep to its decision, one step per program point: the call of
  \<open>cleanup_old_data\<close> (line 201), the block lookup with its answer (lines 204-212), and
  lines 73, 76, 79, 82 and 85-96 of \<open>check_rate_limit\<close> together with the denial that
  \<open>proxy_request\<close> builds from its result (lines 216-231). A step is executed as a
  whole; the local variables of \<open>check_rate_limit\<close> are fields of the thread.
\<close>

datatype pc = Line_201 | Line_204 | Line_73 | Line_76 | Line_79 | Line_82 | Line_85 | Returned

record thread =
  th_pc :: pc
  th_clock :: clock
  current_time :: timestamp
  hour_count :: int
  minute_requests :: int
  th_result :: "admission option"

definition start :: "clock \<Rightarrow> thread" where
  "start clk = \<lparr>th_pc = Line_201, th_clock = clk, current_time = 0, hour_count = 0,
                minute_requests = 0, th_result = None\<rparr>"

text \<open>
  Reading \<open>ip_requests[ip]\<close> stores an empty deque under a missing key, as the
  \<open>defaultdict\<close> does.
\<close>

definition touch :: "state \<Rightarrow> string \<Rightarrow> state" where
  "touch st ip = (case ip_requests st ip of
                    None \<Rightarrow> st\<lparr>ip_requests := (ip_requests st)(ip \<mapsto> [])\<rparr>
                  | Some dq \<Rightarrow> st)"

definition handler_step :: "config \<Rightarrow> string \<Rightarrow> state \<Rightarrow> thread \<Rightarrow> state \<times> thread" where
  "handler_step cfg ip st th =
     (case th_pc th of
        Line_201 \<Rightarrow> (cleanup_old_data st (t_cleanup (th_clock th)), th\<lparr>th_pc := Line_204\<rparr>)
      | Line_204 \<Rightarrow>
          (case blocked_ips st ip of
             None \<Rightarrow> (st, th\<lparr>th_pc := Line_73\<rparr>)
           | Some unblock_time \<Rightarrow>
               if unblock_time > t_is_blocked (th_clock th) then
                 (let remaining_time = py_int ((unblock_time - t_remaining (th_clock th)) / 60)
                  in (log_request st ''BLOCKED'',
                      th\<lparr>th_pc := Returned,
                         th_result := Some (Deny (jsonify
                           (Blocked_body remaining_time unblock_time) 429))\<rparr>))
               else (st, th\<lparr>th_pc := Line_73\<rparr>))
      | Line_73 \<Rightarrow> (st, th\<lparr>current_time := t_check (th_clock th), th_pc := Line_76\<rparr>)
      | Line_76 \<Rightarrow>
          (st\<lparr>ip_requests := (ip_requests st)
                 (ip \<mapsto> defaultdict_get [] (ip_requests st) ip @ [current_time th])\<rparr>,
           th\<lparr>th_pc := Line_79\<rparr>)
      | Line_79 \<Rightarrow>
          (touch st ip,
           th\<lparr>hour_count := int (length (defaultdict_get [] (ip_requests st) ip)),
              th_pc := Line_82\<rparr>)
      | Line_82 \<Rightarrow>
          (touch st ip,
           th\<lparr>minute_requests :=
                int (length (filter (\<lambda>t. t > current_time th - 60)
                       (defaultdict_get [] (ip_requests st) ip))),
              th_pc := Line_85\<rparr>)
      | Line_85 \<Rightarrow>
          if minute_requests th \<ge> DDOS_REQUESTS_PER_MINUTE cfg then
            (let block_until = current_time th + real_of_int (BLOCK_DURATION_MINUTES cfg * 60)
             in (log_request (st\<lparr>blocked_ips := (blocked_ips st)(ip \<mapsto> block_until)\<rparr>)
                   ''DDOS_BLOCKED'',
                 th\<lparr>th_pc := Returned,
                    th_result := Some (Deny (jsonify
                      (DDoS_body ''DDoS detected'' (BLOCK_DURATION_MINUTES cfg)) 429))\<rparr>))
          else if hour_count th > REQUESTS_PER_HOUR cfg then
            (log_request st ''RATE_LIMITED'',
             th\<lparr>th_pc := Returned,
                th_result := Some (Deny (jsonify
                  (Rate_limited_body (REQUESTS_PER_HOUR cfg) (hour_count th)) 429))\<rparr>)
          else (st, th\<lparr>th_pc := Returned, th_result := Some (Allow (hour_count th))\<rparr>)
      | Returned \<Rightarrow> (st, th))"

text \<open>A schedule names, step by step, the thread that moves.\<close>

datatype tid = T1 | T2

fun interleave ::
  "config \<Rightarrow> string \<Rightarrow> tid list \<Rightarrow> state \<times> thread \<times> thread \<Rightarrow> state \<times> thread \<times> thread"
  where
  "interleave cfg ip [] s = s"
| "interleave cfg ip (T1 # sched) (st, th1, th2) =
     (case handler_step cfg ip st th1 of
        (st', th1') \<Rightarrow> interleave cfg ip sched (st', th1', th2))"
| "interleave cfg ip (T2 # sched) (st, th1, th2) =
     (case handler_step cfg ip st th2 of
        (st', th2') \<Rightarrow> interleave cfg ip sched (st', th1, th2'))"

text \<open>The value of \<open>ip_requests[ip]\<close>, as the \<open>defaultdict\<close> returns it.\<close>

definition client_log :: "state \<Rightarrow> string \<Rightarrow> timestamp list" where
  "client_log st ip = defaultdict_get [] (ip_requests st) ip"

section \<open>Concrete inputs\<close>

text \<open>
  Small configurations, requests and states on which the theorems below are instantiated.
  \<open>ex_clock t\<close> is a request during which every reading of the clock is \<open>t\<close>.
\<close>

definition ex_cfg :: config where
  "ex_cfg = \<lparr>BACKEND_URL = ''http://backend/'', REQUESTS_PER_HOUR = 2,
             DDOS_REQUESTS_PER_MINUTE = 3, BLOCK_DURATION_MINUTES = 60\<rparr>"

definition ex_strict_cfg :: config where
  "ex_strict_cfg = \<lparr>BACKEND_URL = ''http://backend/'', REQUESTS_PER_HOUR = 60,
             DDOS_REQUESTS_PER_MINUTE = 2, BLOCK_DURATION_MINUTES = 60\<rparr>"

definition ex_one_cfg :: config where
  "ex_one_cfg = \<lparr>BACKEND_URL = ''http://backend/'', REQUESTS_PER_HOUR = 60,
             DDOS_REQUESTS_PER_MINUTE = 1, BLOCK_DURATION_MINUTES = 60\<rparr>"

definition ex_empty :: state where
  "ex_empty = \<lparr>ip_requests = Map.empty, blocked_ips = Map.empty, stats = Map.empty\<rparr>"

definition ex_clock :: "timestamp \<Rightarrow> clock" where
  "ex_clock t = \<lparr>t_cleanup = t, t_is_blocked = t, t_remaining = t, t_check = t\<rparr>"

definition ex_get :: request where
  "ex_get = \<lparr>client_ip = ''10.0.0.1'', req_method = ''GET'', path = ''ping'',
             req_headers = [''Host'' \<mapsto> ''proxy'', ''Accept'' \<mapsto> ''*/*''],
             args = [(''a'', ''1'')], content_type = None, is_json = False,
             get_json = Inr JNull, get_data = [], form = Map.empty, files = Map.empty\<rparr>"

definition ex_post :: request where
  "ex_post = \<lparr>client_ip = ''10.0.0.1'', req_method = ''POST'', path = ''submit'',
             req_headers = [''Host'' \<mapsto> ''proxy'', ''Content-Type'' \<mapsto> ''text/plain''],
             args = [(''a'', ''1'')], content_type = Some ''text/plain'', is_json = False,
             get_json = Inr JNull, get_data = ''hello'', form = Map.empty,
             files = Map.empty\<rparr>"

definition ex_backend :: backend where
  "ex_backend call = Inr \<lparr>br_content = ''pong'', br_status_code = 200,
      br_headers = [''Content-Length'' \<mapsto> ''4'', ''X-Served-By'' \<mapsto> ''b1'']\<rparr>"

definition ex_failing :: "exception \<Rightarrow> backend" where
  "ex_failing e call = Inl e"

definition ex_timeout :: exception where
  "ex_timeout = \<lparr>is_Timeout = True, is_ConnectionError = False, str = ''timed out''\<rparr>"

definition ex_refused :: exception where
  "ex_refused = \<lparr>is_Timeout = False, is_ConnectionError = True, str = ''refused''\<rparr>"

definition ex_other :: exception where
  "ex_other = \<lparr>is_Timeout = False, is_ConnectionError = False, str = ''bad url''\<rparr>"

text \<open>Two requests at 0 and 10 on record, no block.\<close>

definition ex_busy :: state where
  "ex_busy = \<lparr>ip_requests = [''10.0.0.1'' \<mapsto> [0, 10]], blocked_ips = Map.empty,
              stats = Map.empty\<rparr>"

text \<open>Three requests on record under \<open>ex_cfg\<close>, whose hourly limit is two.\<close>

definition ex_over :: state where
  "ex_over = \<lparr>ip_requests = [''10.0.0.1'' \<mapsto> [0, 100, 200]], blocked_ips = Map.empty,
              stats = Map.empty\<rparr>"

text \<open>
  The state that \<open>ex_strict_cfg\<close> reaches from \<open>ex_empty\<close> after requests at 0 and 50:
  the second one trips the per-minute threshold and blocks the client until 3650.
\<close>

definition ex_blocked :: state where
  "ex_blocked = \<lparr>ip_requests = [''10.0.0.1'' \<mapsto> [0, 50]],
                 blocked_ips = [''10.0.0.1'' \<mapsto> 3650], stats = Map.empty\<rparr>"

text \<open>
  The state that \<open>ex_one_cfg\<close> reaches from \<open>ex_empty\<close> after a request at 400: the
  request is recorded and blocks the client until 4000.
\<close>

definition ex_boundary :: state where
  "ex_boundary = \<lparr>ip_requests = [''10.0.0.1'' \<mapsto> [400]],
                  blocked_ips = [''10.0.0.1'' \<mapsto> 4000], stats = Map.empty\<rparr>"

text \<open>One request at 0 on record: one short of the hourly limit of \<open>ex_cfg\<close>.\<close>

definition ex_one :: state where
  "ex_one = \<lparr>ip_requests = [''10.0.0.1'' \<mapsto> [0]], blocked_ips = Map.empty,
             stats = Map.empty\<rparr>"

text \<open>
  Two schedules for two handlers of seven steps each: the first handler to its end and
  then the second, and the two handlers in lockstep up to line 76, so that both have
  appended before either counts.
\<close>

definition ex_in_sequence :: "tid list" where
  "ex_in_sequence = [T1, T1, T1, T1, T1, T1, T1, T2, T2, T2, T2, T2, T2, T2]"

definition ex_both_append_first :: "tid list" where
  "ex_both_append_first = [T1, T2, T1, T2, T1, T2, T1, T2, T1, T1, T1, T2, T2, T2]"

section \<open>Facts about the sweep\<close>

lemma blocked_ips_cleanup:
  "blocked_ips (cleanup_old_data st now) ip =
     (case blocked_ips st ip of None \<Rightarrow> None
      | Some e \<Rightarrow> if e < now then None else Some e)"
  by (simp add: cleanup_old_data_def)

lemma ip_requests_cleanup:
  "ip_requests (cleanup_old_data st now) ip =
     (case ip_requests st ip of None \<Rightarrow> None
      | Some dq \<Rightarrow> if popleft_while (now - 3600) dq = [] then None
                   else Some (popleft_while (now - 3600) dq))"
  by (simp add: cleanup_old_data_def Let_def split: option.splits)

lemma stats_cleanup: "stats (cleanup_old_data st now) = stats st"
  by (simp add: cleanup_old_data_def)


text \<open>On a log in non-decreasing order the prefix trim removes exactly the old entries.\<close>

lemma popleft_while_sorted:
  "sorted dq \<Longrightarrow> popleft_while c dq = filter (\<lambda>t. c \<le> t) dq"
proof (induction dq)
  case Nil
  then show ?case by simp
next
  case (Cons t dq)
  show ?case
  proof (cases "t < c")
    case True
    with Cons show ?thesis by simp
  next
    case False
    with Cons.prems have "\<forall>u \<in> set (t # dq). c \<le> u" by auto
    then have "filter (\<lambda>t. c \<le> t) (t # dq) = t # dq" by (simp only: filter_True)
    with False show ?thesis by simp
  qed
qed

lemma popleft_while_hd: "popleft_while c dq \<noteq> [] \<Longrightarrow> c \<le> hd (popleft_while c dq)"
  by (induction dq) (auto split: if_splits)

lemma popleft_while_keep: "\<forall>t \<in> set dq. c \<le> t \<Longrightarrow> popleft_while c dq = dq"
  by (cases dq) auto

lemma client_log_cleanup_sorted:
  assumes "sorted (client_log st ip)"
  shows "client_log (cleanup_old_data st now) ip
           = filter (\<lambda>t. now - 3600 \<le> t) (client_log st ip)"
  using assms
  by (auto simp: client_log_def defaultdict_get_def ip_requests_cleanup popleft_while_sorted
      split: option.splits)

lemma client_log_cleanup_keep:
  assumes "\<forall>t \<in> set (client_log st ip). now - 3600 \<le> t"
  shows "client_log (cleanup_old_data st now) ip = client_log st ip"
  using assms popleft_while_keep[of _ "now - 3600"]
  by (auto simp: client_log_def defaultdict_get_def ip_requests_cleanup split: option.splits)


text \<open>
  Logs stay in non-decreasing order as long as the clock does not run backwards: the
  sweep keeps a suffix, the rate check appends a reading that is not below the last one.
\<close>

lemma sorted_cleanup:
  "sorted (client_log st ip) \<Longrightarrow> sorted (client_log (cleanup_old_data st now) ip)"
  by (simp add: client_log_cleanup_sorted sorted_wrt_filter)

section \<open>Facts about the rate check and the handler\<close>

lemma check_rate_limit_log:
  "ip_requests (fst (check_rate_limit cfg st ip t)) ip = Some (client_log st ip @ [t])"
  by (simp add: check_rate_limit_def client_log_def Let_def)

lemma check_rate_limit_count:
  "fst (snd (snd (check_rate_limit cfg st ip t))) = int (length (client_log st ip)) + 1"
  by (simp add: check_rate_limit_def client_log_def Let_def)

lemma check_rate_limit_stats: "stats (fst (check_rate_limit cfg st ip t)) = stats st"
  by (simp add: check_rate_limit_def Let_def)

lemma sorted_check_rate_limit:
  assumes "sorted (client_log st ip)" "\<forall>u \<in> set (client_log st ip). u \<le> t"
  shows "sorted (client_log (fst (check_rate_limit cfg st ip t)) ip)"
  using assms
  by (simp add: client_log_def[of "fst (check_rate_limit cfg st ip t)"] defaultdict_get_def
      check_rate_limit_log sorted_append)

lemma client_log_log_request: "client_log (log_request st l) ip = client_log st ip"
  by (simp add: client_log_def log_request_def)

lemma forward_frame:
  "ip_requests (fst (forward cfg backend st req)) = ip_requests st"
  "blocked_ips (fst (forward cfg backend st req)) = blocked_ips st"
  by (auto simp: forward_def log_request_def split: sum.splits)

text \<open>The guarded subscripts of lines 205 and 211 never raise.\<close>

lemma admit_total: "\<exists>r. admit cfg st ip clk = Inr r"
  by (auto simp: admit_def Let_def is_ip_blocked_def dict_get_def
      split: option.splits prod.splits)


lemma serve_all_total:
  "\<exists>st' ds. serve_all cfg backend st reqs = Inr (st', ds) \<and> length ds = length reqs"
proof (induction reqs arbitrary: st)
  case Nil
  then show ?case by simp
next
  case (Cons rc rest)
  obtain req clk where rc: "rc = (req, clk)" by (cases rc)
  from admit_total[of cfg st "client_ip req" clk] obtain st1 d where
    adm: "admit cfg st (client_ip req) clk = Inr (st1, d)" by auto
  define st2 where
    "st2 = (case d of Deny r \<Rightarrow> st1 | Allow n \<Rightarrow> fst (forward cfg backend st1 req))"
  from Cons.IH[of st2] obtain st' ds where
    "serve_all cfg backend st2 rest = Inr (st', ds)" "length ds = length rest" by blast
  with adm rc show ?case by (simp add: st2_def Let_def)
qed

text \<open>One call of the admission stage for a client that is not blocked after the sweep.\<close>

lemma admit_not_blocked:
  assumes "\<not> is_ip_blocked (cleanup_old_data st (t_cleanup clk)) ip (t_is_blocked clk)"
  defines "dq \<equiv> client_log (cleanup_old_data st (t_cleanup clk)) ip @ [t_check clk]"
  shows "\<exists>st'. admit cfg st ip clk = Inr (st',
           if DDOS_REQUESTS_PER_MINUTE cfg \<le> int (length (filter (\<lambda>t. t > t_check clk - 60) dq))
           then Deny (jsonify (DDoS_body ''DDoS detected'' (BLOCK_DURATION_MINUTES cfg)) 429)
           else if REQUESTS_PER_HOUR cfg < int (length dq)
           then Deny (jsonify (Rate_limited_body (REQUESTS_PER_HOUR cfg) (int (length dq))) 429)
           else Allow (int (length dq)))
         \<and> ip_requests st' ip = Some dq
         \<and> (int (length (filter (\<lambda>t. t > t_check clk - 60) dq)) < DDOS_REQUESTS_PER_MINUTE cfg
              \<longrightarrow> blocked_ips st' ip = blocked_ips (cleanup_old_data st (t_cleanup clk)) ip)"
  using assms(1) unfolding dq_def
  by (simp add: admit_def check_rate_limit_def client_log_def Let_def log_request_def)

lemma admit_blocked:
  assumes "is_ip_blocked (cleanup_old_data st (t_cleanup clk)) ip (t_is_blocked clk)"
  shows "\<exists>r. admit cfg st ip clk
           = Inr (log_request (cleanup_old_data st (t_cleanup clk)) ''BLOCKED'', Deny r)"
  using assms
  by (auto simp add: admit_def is_ip_blocked_def dict_get_def Let_def split: option.splits)

section \<open>Runs of one client\<close>

text \<open>
  A client without a block whose recorded requests and new requests all lie inside one
  hour of every sweep: as long as no decision is the DDoS denial, the \<open>k\<close>-th entry of the
  log decides by comparison with the hourly limit.
\<close>

lemma hourly_run_general:
  assumes "client_log st ip = pre" "blocked_ips st ip = None"
    and "\<forall>rc \<in> set reqs. client_ip (fst rc) = ip"
    and "\<forall>rc \<in> set reqs. \<forall>t \<in> set pre \<union> set (map (\<lambda>rc. t_check (snd rc)) reqs).
            t_cleanup (snd rc) - 3600 \<le> t"
    and "serve_all cfg backend st reqs = Inr (st', ds)"
    and "\<forall>d \<in> set ds.
            d \<noteq> Deny (jsonify (DDoS_body ''DDoS detected'' (BLOCK_DURATION_MINUTES cfg)) 429)"
  shows "ds = map (\<lambda>k. if REQUESTS_PER_HOUR cfg < int k
                       then Deny (jsonify (Rate_limited_body (REQUESTS_PER_HOUR cfg) (int k)) 429)
                       else Allow (int k))
                 [length pre + 1 ..< length pre + length reqs + 1]"
  using assms
proof (induction reqs arbitrary: st pre ds)
  case Nil
  then show ?case by simp
next
  case (Cons rc rest)
  obtain req clk where rc: "rc = (req, clk)" by (cases rc)
  let ?st1 = "cleanup_old_data st (t_cleanup clk)"
  have ip: "client_ip req = ip" using Cons.prems(3) rc by simp
  have keep: "client_log ?st1 ip = pre"
    using Cons.prems(1,4) rc client_log_cleanup_keep[of st ip "t_cleanup clk"] by simp
  have nb: "\<not> is_ip_blocked ?st1 ip (t_is_blocked clk)"
    using Cons.prems(2) by (simp add: is_ip_blocked_def blocked_ips_cleanup)
  have b1: "blocked_ips ?st1 ip = None"
    using Cons.prems(2) by (simp add: blocked_ips_cleanup)
  let ?dq = "pre @ [t_check clk]"
  let ?d = "if DDOS_REQUESTS_PER_MINUTE cfg
                 \<le> int (length (filter (\<lambda>t. t > t_check clk - 60) ?dq))
           then Deny (jsonify (DDoS_body ''DDoS detected'' (BLOCK_DURATION_MINUTES cfg)) 429)
           else if REQUESTS_PER_HOUR cfg < int (length ?dq)
           then Deny (jsonify (Rate_limited_body (REQUESTS_PER_HOUR cfg) (int (length ?dq))) 429)
           else Allow (int (length ?dq))"
  from admit_not_blocked[OF nb, of cfg] keep obtain st1' where
    adm: "admit cfg st ip clk = Inr (st1', ?d)"
    and lg: "ip_requests st1' ip = Some ?dq"
    and bl: "int (length (filter (\<lambda>t. t > t_check clk - 60) ?dq)) < DDOS_REQUESTS_PER_MINUTE cfg
              \<longrightarrow> blocked_ips st1' ip = blocked_ips ?st1 ip"
    by auto
  define st2 where
    "st2 = (case ?d of Deny r \<Rightarrow> st1' | Allow n \<Rightarrow> fst (forward cfg backend st1' req))"
  from Cons.prems(5) rc ip adm obtain ds' where
    run: "serve_all cfg backend st2 rest = Inr (st', ds')" and ds: "ds = ?d # ds'"
    unfolding st2_def by (auto simp: Let_def split: sum.splits)
  have noddos:
    "?d \<noteq> Deny (jsonify (DDoS_body ''DDoS detected'' (BLOCK_DURATION_MINUTES cfg)) 429)"
    using Cons.prems(6) ds by simp
  then have quiet:
    "int (length (filter (\<lambda>t. t > t_check clk - 60) ?dq)) < DDOS_REQUESTS_PER_MINUTE cfg"
    by (auto split: if_splits)
  then have d: "?d = (if REQUESTS_PER_HOUR cfg < int (length ?dq)
           then Deny (jsonify (Rate_limited_body (REQUESTS_PER_HOUR cfg) (int (length ?dq))) 429)
           else Allow (int (length ?dq)))" by simp
  have log2: "client_log st2 ip = ?dq"
    unfolding st2_def using lg
    by (auto simp: client_log_def defaultdict_get_def forward_frame split: admission.splits)
  have blk2: "blocked_ips st2 ip = None"
    unfolding st2_def using bl quiet b1
    by (auto simp: forward_frame split: admission.splits)
  have "ds' = map (\<lambda>k. if REQUESTS_PER_HOUR cfg < int k
                       then Deny (jsonify (Rate_limited_body (REQUESTS_PER_HOUR cfg) (int k)) 429)
                       else Allow (int k))
                 [length ?dq + 1 ..< length ?dq + length rest + 1]"
  proof (rule Cons.IH[OF log2 blk2 _ _ run])
    show "\<forall>rc\<in>set rest. client_ip (fst rc) = ip" using Cons.prems(3) by simp
    show "\<forall>rc\<in>set rest. \<forall>t\<in>set ?dq \<union> set (map (\<lambda>rc. t_check (snd rc)) rest).
            t_cleanup (snd rc) - 3600 \<le> t"
      using Cons.prems(4) rc by auto
    show "\<forall>d\<in>set ds'.
            d \<noteq> Deny (jsonify (DDoS_body ''DDoS detected'' (BLOCK_DURATION_MINUTES cfg)) 429)"
      using Cons.prems(6) ds by simp
  qed
  moreover have "[length pre + 1 ..< length pre + length (rc # rest) + 1]
      = (length pre + 1) # [length ?dq + 1 ..< length ?dq + length rest + 1]"
  proof -
    have "length pre + 1 < length pre + length (rc # rest) + 1" by simp
    from upt_conv_Cons[OF this] show ?thesis by simp
  qed
  ultimately show ?case using ds d by simp
qed

text \<open>
  A client whose log is longer than the hourly limit and loses nothing to the sweep is
  denied, whichever of the three denials applies, and its log does not get shorter.
\<close>

lemma admit_over_limit:
  assumes over: "REQUESTS_PER_HOUR cfg < int (length (client_log st ip))"
    and fresh: "\<forall>t \<in> set (client_log st ip). t_cleanup clk - 3600 \<le> t"
  shows "\<exists>st' r. admit cfg st ip clk = Inr (st', Deny r)
           \<and> (client_log st' ip = client_log st ip
                \<or> client_log st' ip = client_log st ip @ [t_check clk])"
proof (cases "is_ip_blocked (cleanup_old_data st (t_cleanup clk)) ip (t_is_blocked clk)")
  case True
  from admit_blocked[OF True, of cfg] obtain r where
    "admit cfg st ip clk
       = Inr (log_request (cleanup_old_data st (t_cleanup clk)) ''BLOCKED'', Deny r)"
    by blast
  moreover have "client_log (log_request (cleanup_old_data st (t_cleanup clk)) ''BLOCKED'') ip
      = client_log st ip"
    using client_log_cleanup_keep[OF fresh] by (simp add: client_log_log_request)
  ultimately show ?thesis by blast
next
  case False
  have keep: "client_log (cleanup_old_data st (t_cleanup clk)) ip = client_log st ip"
    by (rule client_log_cleanup_keep[OF fresh])
  from admit_not_blocked[OF False, of cfg] keep over obtain st' d where
    "admit cfg st ip clk = Inr (st', d)" "\<exists>r. d = Deny r"
    "ip_requests st' ip = Some (client_log st ip @ [t_check clk])"
    by (auto split: if_splits)
  then show ?thesis by (auto simp: client_log_def defaultdict_get_def)
qed

lemma retry_run_general:
  assumes "REQUESTS_PER_HOUR cfg < int (length (client_log st ip))"
    and "\<forall>rc \<in> set reqs. client_ip (fst rc) = ip"
    and "\<forall>rc \<in> set reqs.
            \<forall>t \<in> set (client_log st ip) \<union> set (map (\<lambda>rc. t_check (snd rc)) reqs).
              t_cleanup (snd rc) - 3600 \<le> t"
  shows "\<exists>st' ds. serve_all cfg backend st reqs = Inr (st', ds)
           \<and> length ds = length reqs
           \<and> (\<forall>d \<in> set ds. \<exists>r. d = Deny r)
           \<and> REQUESTS_PER_HOUR cfg < int (length (client_log st' ip))"
  using assms
proof (induction reqs arbitrary: st)
  case Nil
  then show ?case by simp
next
  case (Cons rc rest)
  obtain req clk where rc: "rc = (req, clk)" by (cases rc)
  have ip: "client_ip req = ip" using Cons.prems(2) rc by simp
  have fresh: "\<forall>t \<in> set (client_log st ip). t_cleanup clk - 3600 \<le> t"
    using Cons.prems(3) rc by auto
  from admit_over_limit[OF Cons.prems(1) fresh] obtain st1 r where
    adm: "admit cfg st ip clk = Inr (st1, Deny r)"
    and lg: "client_log st1 ip = client_log st ip
             \<or> client_log st1 ip = client_log st ip @ [t_check clk]"
    by blast
  have over1: "REQUESTS_PER_HOUR cfg < int (length (client_log st1 ip))"
    using lg Cons.prems(1) by auto
  have "\<exists>st' ds. serve_all cfg backend st1 rest = Inr (st', ds)
           \<and> length ds = length rest
           \<and> (\<forall>d \<in> set ds. \<exists>r. d = Deny r)
           \<and> REQUESTS_PER_HOUR cfg < int (length (client_log st' ip))"
  proof (rule Cons.IH[OF over1])
    show "\<forall>rc\<in>set rest. client_ip (fst rc) = ip" using Cons.prems(2) by simp
    show "\<forall>rc\<in>set rest.
            \<forall>t\<in>set (client_log st1 ip) \<union> set (map (\<lambda>rc. t_check (snd rc)) rest).
              t_cleanup (snd rc) - 3600 \<le> t"
    proof (intro ballI)
      fix rc' t
      assume mem: "rc' \<in> set rest"
        and t: "t \<in> set (client_log st1 ip) \<union> set (map (\<lambda>rc. t_check (snd rc)) rest)"
      from Cons.prems(3) mem
      have all: "\<forall>t\<in>set (client_log st ip) \<union> set (map (\<lambda>rc. t_check (snd rc)) (rc # rest)).
            t_cleanup (snd rc') - 3600 \<le> t"
        by simp
      from lg rc t
      have "t \<in> set (client_log st ip) \<union> set (map (\<lambda>rc. t_check (snd rc)) (rc # rest))"
        by auto
      with all show "t_cleanup (snd rc') - 3600 \<le> t" by blast
    qed
  qed
  then show ?case using adm rc ip by auto
qed

text \<open>What the handler passes to \<open>requests\<close> for a body that is sent as it came.\<close>

lemma raw_body_other_methods:
  assumes "req_method req \<noteq> ''GET''" "req_method req \<noteq> ''POST''"
  shows "\<exists>call. outbound_call cfg req = Inr call
          \<and> ob_method call = req_method req
          \<and> ob_data call = Some (Raw (get_data req))
          \<and> ob_params call = Some (args req)
          \<and> ob_json call = None \<and> ob_files call = None
          \<and> (\<forall>k. ob_headers call k
                = (if lower k \<in> {''host'', ''content-length''} then None
                   else req_headers req k))"
  using assms by (simp add: outbound_call_def Let_def)

lemma raw_body_post:
  assumes "req_method req = ''POST''" "\<not> is_json req"
    and "\<not> (case content_type req of None \<Rightarrow> False
            | Some ct \<Rightarrow> ct \<noteq> [] \<and> str_contains ''multipart/form-data'' ct)"
  shows "\<exists>call. outbound_call cfg req = Inr call
          \<and> ob_method call = ''POST''
          \<and> ob_data call = Some (Raw (get_data req))
          \<and> ob_params call = None
          \<and> ob_json call = None \<and> ob_files call = None
          \<and> (\<forall>k. ob_headers call k
                = (if lower k \<in> {''host'', ''content-length''} then None
                   else req_headers req k))"
  using assms by (simp add: outbound_call_def Let_def)

lemmas model_defs =
  admit_def cleanup_old_data_def is_ip_blocked_def check_rate_limit_def defaultdict_get_def
  dict_get_def log_request_def bump_def forward_def outbound_call_def proxy_request_def
  jsonify_def rstrip_slash_def lower_def lower_char_def excluded_headers_def client_log_def
  py_int_def Let_def

lemmas ex_defs =
  ex_cfg_def ex_strict_cfg_def ex_one_cfg_def ex_empty_def ex_clock_def ex_get_def ex_post_def
  ex_backend_def ex_failing_def ex_timeout_def ex_refused_def ex_other_def ex_busy_def
  ex_over_def ex_blocked_def ex_boundary_def ex_one_def

section \<open>The hourly limit\<close>

text \<open>
  Claim C1. Take a request whose client is not blocked after the sweep and on which the
  per-minute check does not fire. The handler appends the reading of the clock to the
  client's log and then compares the length of the log with \<open>REQUESTS_PER_HOUR\<close>: if
  the length is strictly greater the request is answered 429 and counted as
  \<open>RATE_LIMITED\<close>, otherwise it goes to the backend. On a log in non-decreasing order
  the entries counted are those of the hour that ends at the sweep, and the new one.
  For a client with no log and no block, whose requests all lie within one hour of every
  sweep, the run always returns, and if none of its decisions is the DDoS denial then
  request \<open>k\<close> (counted from 1) is admitted when \<open>k \<le> REQUESTS_PER_HOUR\<close> and denied
  as rate-limited otherwise, so request \<open>REQUESTS_PER_HOUR + 1\<close> is the first denial.
\<close>

theorem hourly_limit:
  fixes st :: state and clk :: clock and req :: request
    and st1 :: state and dq :: "timestamp list"
  defines "st1 \<equiv> cleanup_old_data st (t_cleanup clk)"
    and "dq \<equiv> client_log (cleanup_old_data st (t_cleanup clk)) (client_ip req) @ [t_check clk]"
  shows
  "(\<not> is_ip_blocked st1 (client_ip req) (t_is_blocked clk)
      \<and> int (length (filter (\<lambda>t. t > t_check clk - 60) dq)) < DDOS_REQUESTS_PER_MINUTE cfg
     \<longrightarrow> (\<exists>st2. ip_requests st2 = (ip_requests st1)(client_ip req \<mapsto> dq)
              \<and> blocked_ips st2 = blocked_ips st1 \<and> stats st2 = stats st
              \<and> proxy_request cfg backend st req clk
                  = Inr (if REQUESTS_PER_HOUR cfg < int (length dq)
                         then (log_request st2 ''RATE_LIMITED'',
                               jsonify (Rate_limited_body (REQUESTS_PER_HOUR cfg)
                                          (int (length dq))) 429)
                         else forward cfg backend st2 req)))
   \<and> (sorted (client_log st (client_ip req))
        \<longrightarrow> dq = filter (\<lambda>t. t_cleanup clk - 3600 \<le> t) (client_log st (client_ip req))
                   @ [t_check clk])
   \<and> (ip_requests st0 ip = None \<and> blocked_ips st0 ip = None
        \<and> (\<forall>rc \<in> set reqs. client_ip (fst rc) = ip)
        \<and> (\<forall>rc \<in> set reqs. \<forall>rc' \<in> set reqs. t_cleanup (snd rc') - 3600 \<le> t_check (snd rc))
      \<longrightarrow> (\<exists>st' ds. serve_all cfg backend st0 reqs = Inr (st', ds)
              \<and> length ds = length reqs
              \<and> ((\<forall>d \<in> set ds. d \<noteq> Deny (jsonify (DDoS_body ''DDoS detected''
                                                  (BLOCK_DURATION_MINUTES cfg)) 429))
                  \<longrightarrow> ds = map (\<lambda>k. if REQUESTS_PER_HOUR cfg < int k
                                      then Deny (jsonify (Rate_limited_body
                                                   (REQUESTS_PER_HOUR cfg) (int k)) 429)
                                      else Allow (int k))
                                [1 ..< length reqs + 1])))"
proof (intro conjI impI)
  assume a: "\<not> is_ip_blocked st1 (client_ip req) (t_is_blocked clk)
      \<and> int (length (filter (\<lambda>t. t > t_check clk - 60) dq)) < DDOS_REQUESTS_PER_MINUTE cfg"
  define st2 where "st2 = st1\<lparr>ip_requests := (ip_requests st1)(client_ip req \<mapsto> dq)\<rparr>"
  have chk: "check_rate_limit cfg st1 (client_ip req) (t_check clk)
      = (st2, \<not> REQUESTS_PER_HOUR cfg < int (length dq), int (length dq),
         if REQUESTS_PER_HOUR cfg < int (length dq) then ''Rate limit exceeded'' else ''OK'')"
    using a unfolding st2_def dq_def st1_def
    by (simp add: check_rate_limit_def client_log_def Let_def)
  have "proxy_request cfg backend st req clk
      = Inr (if REQUESTS_PER_HOUR cfg < int (length dq)
             then (log_request st2 ''RATE_LIMITED'',
                   jsonify (Rate_limited_body (REQUESTS_PER_HOUR cfg) (int (length dq))) 429)
             else forward cfg backend st2 req)"
    using a chk unfolding st1_def
    by (simp add: proxy_request_def admit_def Let_def)
  moreover have "ip_requests st2 = (ip_requests st1)(client_ip req \<mapsto> dq)"
    "blocked_ips st2 = blocked_ips st1" "stats st2 = stats st"
    by (simp_all add: st2_def st1_def stats_cleanup)
  ultimately show "\<exists>st2. ip_requests st2 = (ip_requests st1)(client_ip req \<mapsto> dq)
              \<and> blocked_ips st2 = blocked_ips st1 \<and> stats st2 = stats st
              \<and> proxy_request cfg backend st req clk
                  = Inr (if REQUESTS_PER_HOUR cfg < int (length dq)
                         then (log_request st2 ''RATE_LIMITED'',
                               jsonify (Rate_limited_body (REQUESTS_PER_HOUR cfg)
                                          (int (length dq))) 429)
                         else forward cfg backend st2 req)"
    by blast
next
  assume "sorted (client_log st (client_ip req))"
  then show "dq = filter (\<lambda>t. t_cleanup clk - 3600 \<le> t) (client_log st (client_ip req))
                   @ [t_check clk]"
    unfolding dq_def by (simp add: client_log_cleanup_sorted)
next
  assume b: "ip_requests st0 ip = None \<and> blocked_ips st0 ip = None
        \<and> (\<forall>rc \<in> set reqs. client_ip (fst rc) = ip)
        \<and> (\<forall>rc \<in> set reqs. \<forall>rc' \<in> set reqs. t_cleanup (snd rc') - 3600 \<le> t_check (snd rc))"
  from serve_all_total[of cfg backend st0 reqs] obtain st' ds where
    run: "serve_all cfg backend st0 reqs = Inr (st', ds)" and len: "length ds = length reqs"
    by blast
  have empty: "client_log st0 ip = []"
    using b by (simp add: client_log_def defaultdict_get_def)
  have hour: "\<forall>rc \<in> set reqs. \<forall>t \<in> set [] \<union> set (map (\<lambda>rc. t_check (snd rc)) reqs).
            t_cleanup (snd rc) - 3600 \<le> t"
    using b by auto
  have "ds = map (\<lambda>k. if REQUESTS_PER_HOUR cfg < int k
                       then Deny (jsonify (Rate_limited_body (REQUESTS_PER_HOUR cfg) (int k)) 429)
                       else Allow (int k))
                 [1 ..< length reqs + 1]"
    if "\<forall>d \<in> set ds. d \<noteq> Deny (jsonify (DDoS_body ''DDoS detected''
                                       (BLOCK_DURATION_MINUTES cfg)) 429)"
    using hourly_run_general[OF empty _ _ hour run that] b by simp
  with run len show "\<exists>st' ds. serve_all cfg backend st0 reqs = Inr (st', ds)
              \<and> length ds = length reqs
              \<and> ((\<forall>d \<in> set ds. d \<noteq> Deny (jsonify (DDoS_body ''DDoS detected''
                                                  (BLOCK_DURATION_MINUTES cfg)) 429))
                  \<longrightarrow> ds = map (\<lambda>k. if REQUESTS_PER_HOUR cfg < int k
                                      then Deny (jsonify (Rate_limited_body
                                                   (REQUESTS_PER_HOUR cfg) (int k)) 429)
                                      else Allow (int k))
                                [1 ..< length reqs + 1])"
    by blast
qed

text \<open>
  Under \<open>ex_cfg\<close> (two per hour, three per minute) a client with requests at 0, 100 and
  200 on record is rate-limited at 300 with a count of four, and a new client sending at
  0, 100 and 200 is admitted twice and denied the third time.
\<close>

lemma ex_three_requests:
  "map_sum id snd (serve_all ex_cfg ex_backend ex_empty
         [(ex_get, ex_clock 0), (ex_get, ex_clock 100), (ex_get, ex_clock 200)])
       = Inr [Allow 1, Allow 2, Deny (jsonify (Rate_limited_body 2 3) 429)]"
  by (simp add: ex_defs model_defs)

theorem hourly_limit_witness:
  "\<not> is_ip_blocked (cleanup_old_data ex_over 300) ''10.0.0.1'' 300
   \<and> int (length (filter (\<lambda>t. t > 300 - 60)
            (client_log (cleanup_old_data ex_over 300) ''10.0.0.1'' @ [300])))
       < DDOS_REQUESTS_PER_MINUTE ex_cfg
   \<and> sorted (client_log ex_over ''10.0.0.1'')
   \<and> client_log (cleanup_old_data ex_over 300) ''10.0.0.1'' @ [300]
       = filter (\<lambda>t. 300 - 3600 \<le> t) (client_log ex_over ''10.0.0.1'') @ [300]
   \<and> client_log (cleanup_old_data ex_over 300) ''10.0.0.1'' @ [300] = [0, 100, 200, 300]
   \<and> map_sum id snd (proxy_request ex_cfg ex_backend ex_over ex_get (ex_clock 300))
       = Inr (jsonify (Rate_limited_body 2 4) 429)
   \<and> ip_requests ex_empty ''10.0.0.1'' = None \<and> blocked_ips ex_empty ''10.0.0.1'' = None
   \<and> (\<exists>st'. serve_all ex_cfg ex_backend ex_empty
               [(ex_get, ex_clock 0), (ex_get, ex_clock 100), (ex_get, ex_clock 200)]
             = Inr (st', [Allow 1, Allow 2, Deny (jsonify (Rate_limited_body 2 3) 429)]))"
proof -
  let ?reqs = "[(ex_get, ex_clock 0), (ex_get, ex_clock 100), (ex_get, ex_clock 200)]"
  note T = hourly_limit[where st = ex_over and clk = "ex_clock 300" and req = ex_get
      and cfg = ex_cfg and backend = ex_backend and ?st0.0 = ex_empty and ip = "''10.0.0.1''"
      and reqs = ?reqs]
  have h1: "\<not> is_ip_blocked (cleanup_old_data ex_over 300) ''10.0.0.1'' 300"
    by (simp add: ex_defs model_defs)
  have dq: "client_log (cleanup_old_data ex_over 300) ''10.0.0.1'' @ [300] = [0, 100, 200, 300]"
    by (simp add: ex_defs model_defs)
  have h2: "int (length (filter (\<lambda>t. t > 300 - 60)
            (client_log (cleanup_old_data ex_over 300) ''10.0.0.1'' @ [300])))
       < DDOS_REQUESTS_PER_MINUTE ex_cfg"
    unfolding dq by (simp add: ex_cfg_def)
  have h3: "sorted (client_log ex_over ''10.0.0.1'')"
    by (simp add: ex_defs model_defs)
  have h4: "ip_requests ex_empty ''10.0.0.1'' = None \<and> blocked_ips ex_empty ''10.0.0.1'' = None"
    by (simp add: ex_empty_def)
  have h5: "\<forall>rc \<in> set ?reqs. client_ip (fst rc) = ''10.0.0.1''"
    by (simp add: ex_get_def)
  have h6: "\<forall>rc \<in> set ?reqs. \<forall>rc' \<in> set ?reqs. t_cleanup (snd rc') - 3600 \<le> t_check (snd rc)"
    by (simp add: ex_clock_def)
  from T h3 have c0: "client_log (cleanup_old_data ex_over 300) ''10.0.0.1'' @ [300]
       = filter (\<lambda>t. 300 - 3600 \<le> t) (client_log ex_over ''10.0.0.1'') @ [300]"
    by (simp add: ex_clock_def ex_get_def)
  from T h1 h2 dq obtain st2 where
    "proxy_request ex_cfg ex_backend ex_over ex_get (ex_clock 300)
       = Inr (log_request st2 ''RATE_LIMITED'', jsonify (Rate_limited_body 2 4) 429)"
    by (auto simp: ex_clock_def ex_get_def ex_cfg_def)
  then have c1: "map_sum id snd (proxy_request ex_cfg ex_backend ex_over ex_get (ex_clock 300))
       = Inr (jsonify (Rate_limited_body 2 4) 429)"
    by simp
  from T h4 h5 h6 obtain st' ds where
    run: "serve_all ex_cfg ex_backend ex_empty ?reqs = Inr (st', ds)"
    and imp: "(\<forall>d \<in> set ds. d \<noteq> Deny (jsonify (DDoS_body ''DDoS detected''
                                  (BLOCK_DURATION_MINUTES ex_cfg)) 429))
        \<longrightarrow> ds = map (\<lambda>k. if REQUESTS_PER_HOUR ex_cfg < int k
                           then Deny (jsonify (Rate_limited_body
                                                   (REQUESTS_PER_HOUR ex_cfg) (int k)) 429)
                           else Allow (int k))
                     [1 ..< length ?reqs + 1]"
    by blast
  from run ex_three_requests
  have ds: "ds = [Allow 1, Allow 2, Deny (jsonify (Rate_limited_body 2 3) 429)]" by simp
  from h1 h2 h3 c0 dq c1 h4 run ds show ?thesis by simp
qed

section \<open>The per-minute check\<close>

text \<open>
  Claim C2. Take a request whose client is not blocked after the sweep. If the entries
  of the client's log that are strictly newer than the clock reading minus 60 seconds,
  the entry just appended included, number at least \<open>DDOS_REQUESTS_PER_MINUTE\<close>, then
  the handler answers 429 with the DDoS body, counts the request as \<open>DDOS_BLOCKED\<close> and
  sets the client's block entry, whether or not one existed, to the reading plus
  \<open>BLOCK_DURATION_MINUTES\<close> minutes. Nothing is assumed about the hourly count: the
  outcome is the same when the hourly limit is exceeded too, and \<open>RATE_LIMITED\<close> is not
  counted.
\<close>

theorem ddos_check_first:
  assumes nb: "\<not> is_ip_blocked (cleanup_old_data st (t_cleanup clk)) (client_ip req)
                   (t_is_blocked clk)"
    and dd: "DDOS_REQUESTS_PER_MINUTE cfg
             \<le> int (length (filter (\<lambda>t. t > t_check clk - 60)
                  (client_log (cleanup_old_data st (t_cleanup clk)) (client_ip req)
                     @ [t_check clk])))"
  shows "\<exists>st'. proxy_request cfg backend st req clk
            = Inr (st', jsonify (DDoS_body ''DDoS detected'' (BLOCK_DURATION_MINUTES cfg)) 429)
          \<and> blocked_ips st' (client_ip req)
            = Some (t_check clk + real_of_int (BLOCK_DURATION_MINUTES cfg * 60))
          \<and> ip_requests st' (client_ip req)
            = Some (client_log (cleanup_old_data st (t_cleanup clk)) (client_ip req)
                      @ [t_check clk])
          \<and> stats st' = bump (bump (stats st) ''DDOS_BLOCKED'') ''total''
          \<and> stats st' ''RATE_LIMITED'' = stats st ''RATE_LIMITED''"
  using nb dd
  by (simp add: proxy_request_def admit_def check_rate_limit_def client_log_def Let_def
      log_request_def stats_cleanup bump_def)

text \<open>
  Under \<open>ex_cfg\<close> a client with requests at 0 and 10 on record sends a third one at 20:
  three entries in the minute reach the threshold of three, and three entries in the
  hour exceed the limit of two. The answer is the DDoS denial and the block ends at
  \<open>20 + 3600\<close>.
\<close>

theorem ddos_check_first_witness:
  "\<not> is_ip_blocked (cleanup_old_data ex_busy (t_cleanup (ex_clock 20))) (client_ip ex_get)
        (t_is_blocked (ex_clock 20))
   \<and> DDOS_REQUESTS_PER_MINUTE ex_cfg
       \<le> int (length (filter (\<lambda>t. t > t_check (ex_clock 20) - 60)
            (client_log (cleanup_old_data ex_busy (t_cleanup (ex_clock 20))) (client_ip ex_get)
               @ [t_check (ex_clock 20)])))
   \<and> REQUESTS_PER_HOUR ex_cfg
       < int (length (client_log (cleanup_old_data ex_busy (t_cleanup (ex_clock 20)))
                        (client_ip ex_get) @ [t_check (ex_clock 20)]))
   \<and> (\<exists>st'. proxy_request ex_cfg ex_backend ex_busy ex_get (ex_clock 20)
              = Inr (st', jsonify (DDoS_body ''DDoS detected'' 60) 429)
            \<and> blocked_ips st' ''10.0.0.1'' = Some 3620
            \<and> ip_requests st' ''10.0.0.1'' = Some [0, 10, 20])"
proof -
  have h1: "\<not> is_ip_blocked (cleanup_old_data ex_busy (t_cleanup (ex_clock 20)))
               (client_ip ex_get) (t_is_blocked (ex_clock 20))"
    by (simp add: ex_defs model_defs)
  have dq: "client_log (cleanup_old_data ex_busy (t_cleanup (ex_clock 20))) (client_ip ex_get)
               @ [t_check (ex_clock 20)] = [0, 10, 20]"
    by (simp add: ex_defs model_defs)
  have h2: "DDOS_REQUESTS_PER_MINUTE ex_cfg
       \<le> int (length (filter (\<lambda>t. t > t_check (ex_clock 20) - 60)
            (client_log (cleanup_old_data ex_busy (t_cleanup (ex_clock 20))) (client_ip ex_get)
               @ [t_check (ex_clock 20)])))"
    unfolding dq by (simp add: ex_cfg_def ex_clock_def)
  have h3: "REQUESTS_PER_HOUR ex_cfg
       < int (length (client_log (cleanup_old_data ex_busy (t_cleanup (ex_clock 20)))
                        (client_ip ex_get) @ [t_check (ex_clock 20)]))"
    unfolding dq by (simp add: ex_cfg_def)
  from ddos_check_first[OF h1 h2, of ex_backend] dq
  have "\<exists>st'. proxy_request ex_cfg ex_backend ex_busy ex_get (ex_clock 20)
              = Inr (st', jsonify (DDoS_body ''DDoS detected'' 60) 429)
            \<and> blocked_ips st' ''10.0.0.1'' = Some 3620
            \<and> ip_requests st' ''10.0.0.1'' = Some [0, 10, 20]"
    by (auto simp: ex_cfg_def ex_clock_def ex_get_def)
  with h1 h2 h3 show ?thesis by blast
qed

section \<open>Requests of a blocked client\<close>



text \<open>
  The claim as it was stated says that such a request leaves the client's state
  unchanged. \<open>ex_blocked\<close> is reached from the empty state under \<open>ex_strict_cfg\<close> by
  requests at 0 and 50. The blocked request at 3620 sweeps with cutoff 20 and removes
  the entry 0 from the client's log.
\<close>

lemma ex_blocked_reached:
  "map_sum id snd (serve_all ex_strict_cfg ex_backend ex_empty
       [(ex_get, ex_clock 0), (ex_get, ex_clock 50)])
     = Inr [Allow 1, Deny (jsonify (DDoS_body ''DDoS detected'' 60) 429)]
   \<and> ip_requests (fst (projr (serve_all ex_strict_cfg ex_backend ex_empty
       [(ex_get, ex_clock 0), (ex_get, ex_clock 50)]))) ''10.0.0.1''
     = ip_requests ex_blocked ''10.0.0.1''
   \<and> blocked_ips (fst (projr (serve_all ex_strict_cfg ex_backend ex_empty
       [(ex_get, ex_clock 0), (ex_get, ex_clock 50)]))) ''10.0.0.1''
     = blocked_ips ex_blocked ''10.0.0.1''"
  by (simp add: ex_defs model_defs)


section \<open>The sweep\<close>

text \<open>
  Claim C4, as amended. After \<open>cleanup_old_data\<close> at reading \<open>now\<close>, for every client:
  no empty log is left in the map, so a client whose log became empty has no log at all;
  the first entry of every remaining log is at or after \<open>now - 3600\<close>; a log that was in
  non-decreasing order has lost exactly its entries strictly before \<open>now - 3600\<close> and
  kept those at or after it; and the block entries that remain are exactly those whose
  expiry is at or after \<open>now\<close>, so every block that expired strictly before \<open>now\<close> is gone.
\<close>

theorem cleanup_old_data_sweep:
  "ip_requests (cleanup_old_data st now) ip \<noteq> Some []
   \<and> (client_log (cleanup_old_data st now) ip = []
        \<longleftrightarrow> ip_requests (cleanup_old_data st now) ip = None)
   \<and> (\<forall>dq. ip_requests (cleanup_old_data st now) ip = Some dq \<longrightarrow> now - 3600 \<le> hd dq)
   \<and> (sorted (client_log st ip) \<longrightarrow>
         client_log (cleanup_old_data st now) ip
           = filter (\<lambda>t. now - 3600 \<le> t) (client_log st ip))
   \<and> (\<forall>e. blocked_ips (cleanup_old_data st now) ip = Some e
          \<longleftrightarrow> blocked_ips st ip = Some e \<and> now \<le> e)"
proof (intro conjI allI impI)
  show "ip_requests (cleanup_old_data st now) ip \<noteq> Some []"
    by (simp add: ip_requests_cleanup split: option.splits)
  then show "client_log (cleanup_old_data st now) ip = []
        \<longleftrightarrow> ip_requests (cleanup_old_data st now) ip = None"
    by (auto simp: client_log_def defaultdict_get_def split: option.splits)
next
  fix dq
  assume "ip_requests (cleanup_old_data st now) ip = Some dq"
  then show "now - 3600 \<le> hd dq"
    using popleft_while_hd[of "now - 3600"]
    by (auto simp add: ip_requests_cleanup split: option.splits if_splits)
next
  assume "sorted (client_log st ip)"
  then show "client_log (cleanup_old_data st now) ip
           = filter (\<lambda>t. now - 3600 \<le> t) (client_log st ip)"
    by (rule client_log_cleanup_sorted)
next
  fix e
  show "blocked_ips (cleanup_old_data st now) ip = Some e
          \<longleftrightarrow> blocked_ips st ip = Some e \<and> now \<le> e"
    by (auto simp add: blocked_ips_cleanup split: option.splits if_splits)
qed

text \<open>
  A sweep at 3700 of the log 0, 100, 200 has cutoff 100: it removes 0 and keeps 100 and
  200.
\<close>

theorem cleanup_old_data_sweep_witness:
  "ip_requests (cleanup_old_data ex_over 3700) ''10.0.0.1'' = Some [100, 200]
   \<and> (3700 :: real) - 3600 \<le> hd [100, 200]
   \<and> sorted (client_log ex_over ''10.0.0.1'')
   \<and> client_log (cleanup_old_data ex_over 3700) ''10.0.0.1''
       = filter (\<lambda>t. 3700 - 3600 \<le> t) (client_log ex_over ''10.0.0.1'')
   \<and> blocked_ips (cleanup_old_data ex_blocked 3700) ''10.0.0.1'' = None
   \<and> blocked_ips (cleanup_old_data ex_blocked 3620) ''10.0.0.1'' = Some 3650"
proof -
  note T = cleanup_old_data_sweep[where st = ex_over and now = 3700 and ip = "''10.0.0.1''"]
  note B1 = cleanup_old_data_sweep[where st = ex_blocked and now = 3700 and ip = "''10.0.0.1''"]
  note B2 = cleanup_old_data_sweep[where st = ex_blocked and now = 3620 and ip = "''10.0.0.1''"]
  have h1: "ip_requests (cleanup_old_data ex_over 3700) ''10.0.0.1'' = Some [100, 200]"
    by (simp add: ex_defs model_defs)
  have h2: "sorted (client_log ex_over ''10.0.0.1'')"
    by (simp add: ex_defs model_defs)
  from T h1 have c1: "(3700 :: real) - 3600 \<le> hd [100, 200]" by blast
  from T h2 have c2: "client_log (cleanup_old_data ex_over 3700) ''10.0.0.1''
       = filter (\<lambda>t. 3700 - 3600 \<le> t) (client_log ex_over ''10.0.0.1'')"
    by blast
  have blk: "blocked_ips ex_blocked ''10.0.0.1'' = Some 3650" by (simp add: ex_defs)
  from B1 blk have c3: "blocked_ips (cleanup_old_data ex_blocked 3700) ''10.0.0.1'' = None"
    by (cases "blocked_ips (cleanup_old_data ex_blocked 3700) ''10.0.0.1''") auto
  from B2 blk have c4: "blocked_ips (cleanup_old_data ex_blocked 3620) ''10.0.0.1'' = Some 3650"
    by simp
  from h1 c1 h2 c2 c3 c4 show ?thesis by blast
qed

text \<open>
  The claim as it was stated has \<open>\<le>\<close> in both places. \<open>ex_boundary\<close> is reached from
  the empty state under \<open>ex_one_cfg\<close> by one request at 400. A sweep at 4000 keeps the
  log entry 400, which is at \<open>now - 3600\<close>, and the block entry 4000, which is at \<open>now\<close>.
\<close>

lemma ex_boundary_reached:
  "map_sum id snd (serve_all ex_one_cfg ex_backend ex_empty [(ex_get, ex_clock 400)])
     = Inr [Deny (jsonify (DDoS_body ''DDoS detected'' 60) 429)]
   \<and> ip_requests (fst (projr (serve_all ex_one_cfg ex_backend ex_empty
       [(ex_get, ex_clock 400)]))) ''10.0.0.1''
     = ip_requests ex_boundary ''10.0.0.1''
   \<and> blocked_ips (fst (projr (serve_all ex_one_cfg ex_backend ex_empty
       [(ex_get, ex_clock 400)]))) ''10.0.0.1''
     = blocked_ips ex_boundary ''10.0.0.1''"
  by (simp add: ex_defs model_defs)

theorem sweep_keeps_boundary:
  "ip_requests (cleanup_old_data ex_boundary 4000) ''10.0.0.1'' = Some [400]
   \<and> (400 :: real) \<le> 4000 - 3600
   \<and> blocked_ips (cleanup_old_data ex_boundary 4000) ''10.0.0.1'' = Some 4000
   \<and> (4000 :: real) \<le> 4000"
  by (simp add: ex_defs model_defs)

section \<open>Manual unblock\<close>



section \<open>Forwarding\<close>





text \<open>
  Claim C7. The property is that a \<open>POST\<close> that is neither multipart nor JSON is
  forwarded with its raw body, with the inbound headers except \<open>Host\<close> and
  \<open>Content-Length\<close>, and with the inbound query parameters. The code does not do the
  last: for a \<open>POST\<close> with content type \<open>text/plain\<close>, the query parameter \<open>a=1\<close>
  and the body \<open>hello\<close>, the handler calls \<open>requests.post\<close> with the body and the
  headers without \<open>Host\<close>, at the URL of the path alone, and passes no \<open>params\<close>.
  The same request sent as \<open>PUT\<close> takes the last branch, which passes
  \<open>params=request.args\<close>.
\<close>

theorem post_raw_drops_query:
  "args ex_post = [(''a'', ''1'')]
   \<and> map_sum id ob_params (outbound_call ex_cfg ex_post) = Inr None
   \<and> map_sum id ob_url (outbound_call ex_cfg ex_post) = Inr ''http://backend/submit''
   \<and> map_sum id ob_data (outbound_call ex_cfg ex_post) = Inr (Some (Raw ''hello''))
   \<and> ob_headers (projr (outbound_call ex_cfg ex_post)) ''Host'' = None
   \<and> ob_headers (projr (outbound_call ex_cfg ex_post)) ''Content-Type'' = Some ''text/plain''
   \<and> map_sum id ob_params (outbound_call ex_cfg (ex_post\<lparr>req_method := ''PUT''\<rparr>))
       = Inr (Some [(''a'', ''1'')])"
  by (simp add: ex_defs model_defs)



section \<open>Denied requests stay on the log\<close>

text \<open>
  Claim C10. Every call of \<open>check_rate_limit\<close> leaves the client's log extended by the
  clock reading, whatever it returns, and the count it returns is the length of the
  extended log; when it returns \<open>Rate limit exceeded\<close> the log it leaves is longer than
  the hourly limit. From a state in which the client's log is longer than the limit, a
  run of requests of that client during which no entry ages out (every recorded and every
  new timestamp is at or after the cutoff of every sweep of the run) returns, contains no
  admission, and ends with a log that is still longer than the limit.
\<close>

theorem denied_requests_count:
  "ip_requests (fst (check_rate_limit cfg st ip t)) ip = Some (client_log st ip @ [t])
   \<and> fst (snd (snd (check_rate_limit cfg st ip t))) = int (length (client_log st ip)) + 1
   \<and> (snd (snd (snd (check_rate_limit cfg st ip t))) = ''Rate limit exceeded'' \<longrightarrow>
        \<not> fst (snd (check_rate_limit cfg st ip t))
        \<and> REQUESTS_PER_HOUR cfg
            < int (length (client_log (fst (check_rate_limit cfg st ip t)) ip)))
   \<and> (REQUESTS_PER_HOUR cfg < int (length (client_log st0 ip))
        \<and> (\<forall>rc \<in> set reqs. client_ip (fst rc) = ip)
        \<and> (\<forall>rc \<in> set reqs.
              \<forall>t \<in> set (client_log st0 ip) \<union> set (map (\<lambda>rc. t_check (snd rc)) reqs).
                t_cleanup (snd rc) - 3600 \<le> t)
      \<longrightarrow> (\<exists>st' ds. serve_all cfg backend st0 reqs = Inr (st', ds)
              \<and> length ds = length reqs
              \<and> (\<forall>d \<in> set ds. \<exists>r. d = Deny r)
              \<and> REQUESTS_PER_HOUR cfg < int (length (client_log st' ip))))"
proof (intro conjI impI)
  show "ip_requests (fst (check_rate_limit cfg st ip t)) ip = Some (client_log st ip @ [t])"
    by (rule check_rate_limit_log)
  show "fst (snd (snd (check_rate_limit cfg st ip t))) = int (length (client_log st ip)) + 1"
    by (rule check_rate_limit_count)
next
  assume "snd (snd (snd (check_rate_limit cfg st ip t))) = ''Rate limit exceeded''"
  then show "\<not> fst (snd (check_rate_limit cfg st ip t))"
    by (simp add: check_rate_limit_def Let_def split: if_splits)
next
  assume r: "snd (snd (snd (check_rate_limit cfg st ip t))) = ''Rate limit exceeded''"
  have "client_log (fst (check_rate_limit cfg st ip t)) ip = client_log st ip @ [t]"
    by (simp add: client_log_def[of "fst (check_rate_limit cfg st ip t)"] defaultdict_get_def
        check_rate_limit_log)
  moreover from r have "REQUESTS_PER_HOUR cfg < int (length (client_log st ip @ [t]))"
    by (simp add: check_rate_limit_def client_log_def Let_def split: if_splits)
  ultimately show "REQUESTS_PER_HOUR cfg
            < int (length (client_log (fst (check_rate_limit cfg st ip t)) ip))"
    by simp
next
  assume "REQUESTS_PER_HOUR cfg < int (length (client_log st0 ip))
        \<and> (\<forall>rc \<in> set reqs. client_ip (fst rc) = ip)
        \<and> (\<forall>rc \<in> set reqs.
              \<forall>t \<in> set (client_log st0 ip) \<union> set (map (\<lambda>rc. t_check (snd rc)) reqs).
                t_cleanup (snd rc) - 3600 \<le> t)"
  then show "\<exists>st' ds. serve_all cfg backend st0 reqs = Inr (st', ds)
              \<and> length ds = length reqs
              \<and> (\<forall>d \<in> set ds. \<exists>r. d = Deny r)
              \<and> REQUESTS_PER_HOUR cfg < int (length (client_log st' ip))"
    using retry_run_general[of cfg st0 ip reqs backend] by blast
qed

text \<open>
  The client of \<open>ex_over\<close> has three requests on record against a limit of two. The
  call of \<open>check_rate_limit\<close> at 300 reports rate limiting, and retries at 300 and 400
  are both denied.
\<close>

lemma ex_two_retries:
  "map_sum id snd (serve_all ex_cfg ex_backend ex_over
         [(ex_get, ex_clock 300), (ex_get, ex_clock 400)])
       = Inr [Deny (jsonify (Rate_limited_body 2 4) 429),
              Deny (jsonify (Rate_limited_body 2 5) 429)]"
  by (simp add: ex_defs model_defs)

theorem denied_requests_count_witness:
  "snd (snd (snd (check_rate_limit ex_cfg ex_over ''10.0.0.1'' 300))) = ''Rate limit exceeded''
   \<and> ip_requests (fst (check_rate_limit ex_cfg ex_over ''10.0.0.1'' 300)) ''10.0.0.1''
       = Some [0, 100, 200, 300]
   \<and> REQUESTS_PER_HOUR ex_cfg < int (length (client_log ex_over ''10.0.0.1''))
   \<and> (\<exists>st'. serve_all ex_cfg ex_backend ex_over
               [(ex_get, ex_clock 300), (ex_get, ex_clock 400)]
             = Inr (st', [Deny (jsonify (Rate_limited_body 2 4) 429),
                          Deny (jsonify (Rate_limited_body 2 5) 429)])
           \<and> REQUESTS_PER_HOUR ex_cfg < int (length (client_log st' ''10.0.0.1'')))"
proof -
  let ?reqs = "[(ex_get, ex_clock 300), (ex_get, ex_clock 400)]"
  note T = denied_requests_count[where cfg = ex_cfg and st = ex_over and ip = "''10.0.0.1''"
      and t = 300 and ?st0.0 = ex_over and reqs = ?reqs and backend = ex_backend]
  have lg: "client_log ex_over ''10.0.0.1'' = [0, 100, 200]"
    by (simp add: ex_defs model_defs)
  have h1: "snd (snd (snd (check_rate_limit ex_cfg ex_over ''10.0.0.1'' 300)))
      = ''Rate limit exceeded''"
    by (simp add: ex_defs model_defs)
  have h2: "REQUESTS_PER_HOUR ex_cfg < int (length (client_log ex_over ''10.0.0.1''))"
    unfolding lg by (simp add: ex_cfg_def)
  have h3: "\<forall>rc \<in> set ?reqs. client_ip (fst rc) = ''10.0.0.1''"
    by (simp add: ex_get_def)
  have h4: "\<forall>rc \<in> set ?reqs.
      \<forall>t \<in> set (client_log ex_over ''10.0.0.1'') \<union> set (map (\<lambda>rc. t_check (snd rc)) ?reqs).
        t_cleanup (snd rc) - 3600 \<le> t"
    unfolding lg by (simp add: ex_clock_def)
  from T lg have c1:
    "ip_requests (fst (check_rate_limit ex_cfg ex_over ''10.0.0.1'' 300)) ''10.0.0.1''
       = Some [0, 100, 200, 300]"
    by simp
  from T h2 h3 h4 obtain st' ds where
    run: "serve_all ex_cfg ex_backend ex_over ?reqs = Inr (st', ds)"
    and over: "REQUESTS_PER_HOUR ex_cfg < int (length (client_log st' ''10.0.0.1''))"
    by blast
  from run ex_two_retries
  have "ds = [Deny (jsonify (Rate_limited_body 2 4) 429),
              Deny (jsonify (Rate_limited_body 2 5) 429)]"
    by simp
  with h1 c1 h2 run over show ?thesis by blast
qed

section \<open>Two requests at one short of the limit\<close>

text \<open>
  A handler that runs its seven steps without another thread in between does what the
  admission stage does: the same state and the same decision.
\<close>

lemma handler_alone:
  assumes "admit cfg st ip clk = Inr (st', d)"
  shows "\<exists>th. interleave cfg ip [T1, T1, T1, T1, T1, T1, T1] (st, start clk, th2)
               = (st', th, th2)
             \<and> th_result th = Some d \<and> th_pc th = Returned"
proof (cases "is_ip_blocked (cleanup_old_data st (t_cleanup clk)) ip (t_is_blocked clk)")
  case True
  with assms show ?thesis
    by (auto simp: admit_def is_ip_blocked_def dict_get_def handler_step_def start_def Let_def
        split: option.splits)
next
  case False
  with assms show ?thesis
    by (auto simp: admit_def is_ip_blocked_def check_rate_limit_def handler_step_def start_def
        touch_def defaultdict_get_def Let_def split: option.splits if_splits)
qed

text \<open>
  Claim C9, as amended. Two requests of one client that arrive when its log is one
  entry short of \<open>REQUESTS_PER_HOUR\<close>, with no block, nothing ageing out and no DDoS
  denial, and that are handled one after the other: the first is admitted with the count
  \<open>REQUESTS_PER_HOUR\<close> and the second is denied as rate-limited.
\<close>

theorem two_requests_in_sequence:
  assumes short: "int (length (client_log st ip)) + 1 = REQUESTS_PER_HOUR cfg"
    and nb: "blocked_ips st ip = None"
    and same: "client_ip req1 = ip" "client_ip req2 = ip"
    and hour: "\<forall>c \<in> {clk1, clk2}. \<forall>t \<in> set (client_log st ip) \<union> {t_check clk1, t_check clk2}.
                 t_cleanup c - 3600 \<le> t"
  shows "\<exists>st' ds. serve_all cfg backend st [(req1, clk1), (req2, clk2)] = Inr (st', ds)
           \<and> ((\<forall>d \<in> set ds. d \<noteq> Deny (jsonify (DDoS_body ''DDoS detected''
                                                (BLOCK_DURATION_MINUTES cfg)) 429))
                \<longrightarrow> ds = [Allow (REQUESTS_PER_HOUR cfg),
                          Deny (jsonify (Rate_limited_body (REQUESTS_PER_HOUR cfg)
                                           (REQUESTS_PER_HOUR cfg + 1)) 429)])"
proof -
  let ?reqs = "[(req1, clk1), (req2, clk2)]"
  from serve_all_total[of cfg backend st ?reqs] obtain st' ds where
    run: "serve_all cfg backend st ?reqs = Inr (st', ds)" by blast
  have h3: "\<forall>rc \<in> set ?reqs. client_ip (fst rc) = ip" using same by simp
  have h4: "\<forall>rc \<in> set ?reqs.
      \<forall>t \<in> set (client_log st ip) \<union> set (map (\<lambda>rc. t_check (snd rc)) ?reqs).
        t_cleanup (snd rc) - 3600 \<le> t"
    using hour by auto
  have "ds = [Allow (REQUESTS_PER_HOUR cfg),
              Deny (jsonify (Rate_limited_body (REQUESTS_PER_HOUR cfg)
                               (REQUESTS_PER_HOUR cfg + 1)) 429)]"
    if q: "\<forall>d \<in> set ds. d \<noteq> Deny (jsonify (DDoS_body ''DDoS detected''
                                         (BLOCK_DURATION_MINUTES cfg)) 429)"
  proof -
    have up: "[length (client_log st ip) + 1 ..< length (client_log st ip) + length ?reqs + 1]
        = [length (client_log st ip) + 1, length (client_log st ip) + 2]"
      by (simp add: upt_rec)
    have n: "int (length (client_log st ip)) = REQUESTS_PER_HOUR cfg - 1"
      using short by simp
    from hourly_run_general[OF refl nb h3 h4 run q] show ?thesis
      unfolding up by (simp add: n add.commute)
  qed
  with run show ?thesis by blast
qed

text \<open>
  Under \<open>ex_cfg\<close>, with one request at 0 on record, requests at 100 and 101 handled in
  sequence are admitted and denied.
\<close>

theorem two_requests_in_sequence_witness:
  "int (length (client_log ex_one ''10.0.0.1'')) + 1 = REQUESTS_PER_HOUR ex_cfg
   \<and> blocked_ips ex_one ''10.0.0.1'' = None
   \<and> (\<exists>st'. serve_all ex_cfg ex_backend ex_one [(ex_get, ex_clock 100), (ex_get, ex_clock 101)]
            = Inr (st', [Allow 2, Deny (jsonify (Rate_limited_body 2 3) 429)]))"
proof -
  have lg: "client_log ex_one ''10.0.0.1'' = [0]" by (simp add: ex_defs model_defs)
  have h1: "int (length (client_log ex_one ''10.0.0.1'')) + 1 = REQUESTS_PER_HOUR ex_cfg"
    unfolding lg by (simp add: ex_cfg_def)
  have h2: "blocked_ips ex_one ''10.0.0.1'' = None" by (simp add: ex_defs)
  have h3: "client_ip ex_get = ''10.0.0.1''" by (simp add: ex_get_def)
  have h4: "\<forall>c \<in> {ex_clock 100, ex_clock 101}.
      \<forall>t \<in> set (client_log ex_one ''10.0.0.1'') \<union> {t_check (ex_clock 100), t_check (ex_clock 101)}.
        t_cleanup c - 3600 \<le> t"
    unfolding lg by (simp add: ex_clock_def)
  have run: "map_sum id snd (serve_all ex_cfg ex_backend ex_one
                [(ex_get, ex_clock 100), (ex_get, ex_clock 101)])
      = Inr [Allow 2, Deny (jsonify (Rate_limited_body 2 3) 429)]"
    by (simp add: ex_defs model_defs)
  from two_requests_in_sequence[OF h1 h2 h3 h3 h4, of ex_backend] obtain st' ds where
    "serve_all ex_cfg ex_backend ex_one [(ex_get, ex_clock 100), (ex_get, ex_clock 101)]
       = Inr (st', ds)"
    by blast
  with run have "serve_all ex_cfg ex_backend ex_one
        [(ex_get, ex_clock 100), (ex_get, ex_clock 101)]
      = Inr (st', [Allow 2, Deny (jsonify (Rate_limited_body 2 3) 429)])"
    by simp
  with h1 h2 show ?thesis by blast
qed

text \<open>
  The claim as it was stated is about two handlers running at the same time. With the
  same state and the same two requests, the schedule in which each handler has appended
  its timestamp (line 76) before either reads the length of the log (line 79) lets both
  read the count 3, and both are denied; the schedule that runs them in sequence admits
  the first.
\<close>

lemma ex_in_sequence_run:
  "th_result (fst (snd (interleave ex_cfg ''10.0.0.1'' ex_in_sequence
       (ex_one, start (ex_clock 100), start (ex_clock 101))))) = Some (Allow 2)
   \<and> th_result (snd (snd (interleave ex_cfg ''10.0.0.1'' ex_in_sequence
       (ex_one, start (ex_clock 100), start (ex_clock 101)))))
     = Some (Deny (jsonify (Rate_limited_body 2 3) 429))"
  by (simp add: ex_defs ex_in_sequence_def handler_step_def start_def touch_def
      model_defs)

theorem interleaved_requests_both_denied:
  "int (length (client_log ex_one ''10.0.0.1'')) = REQUESTS_PER_HOUR ex_cfg - 1
   \<and> th_result (fst (snd (interleave ex_cfg ''10.0.0.1'' ex_both_append_first
       (ex_one, start (ex_clock 100), start (ex_clock 101)))))
     = Some (Deny (jsonify (Rate_limited_body 2 3) 429))
   \<and> th_result (snd (snd (interleave ex_cfg ''10.0.0.1'' ex_both_append_first
       (ex_one, start (ex_clock 100), start (ex_clock 101)))))
     = Some (Deny (jsonify (Rate_limited_body 2 3) 429))"
  by (simp add: ex_defs ex_both_append_first_def handler_step_def start_def touch_def
      model_defs)

end
